theory Spec2Isabelle
  imports Complex_Main "HOL-Library.Char_ord" "HOL-Library.List_Lexorder"
begin

section \<open>Data model\<close>

text \<open>
  The dashboard works on a pandas DataFrame. A frame is modelled as the list of its rows,
  a row as a record of the columns the processing functions read. A cell of a column
  read from the CSV file is a string, a number, or missing (pandas' NaN). Numbers are
  exact rationals: the model follows the arithmetic the code writes down and leaves the
  binary rounding of IEEE doubles, and the infinities, out. A cleaned completion value
  is \<open>rat option\<close>, \<open>None\<close> being NaN.

  The two date columns (\<open>inicio\<close>, \<open>prazo\<close>) are parsed by the cleaner and read by no
  aggregation; they are not part of the model.
\<close>

datatype cell = Str string | Num rat | Missing

record raw_row =
  project_id :: "string option"
  area :: "string option"
  status :: "string option"
  conclusao :: cell
  valor :: cell
  custo_previsto :: cell

record row = raw_row +
  conclusao_clean :: "rat option"
  valor_clean :: rat
  custo_previsto_clean :: rat

datatype error = ValueError

section \<open>Parsing decimal literals\<close>

text \<open>
  \<open>float(s)\<close> and \<open>pd.to_numeric\<close> on a string: surrounding white space is ignored, then
  an optional sign, digits with an optional decimal point (at least one digit), and an
  optional exponent. Anything else does not parse. The spellings of infinity and NaN
  are outside the model.
\<close>

definition is_digit :: "char \<Rightarrow> bool" where
  "is_digit c = (48 \<le> (of_char c :: nat) \<and> (of_char c :: nat) \<le> 57)"

definition is_space :: "char \<Rightarrow> bool" where
  "is_space c = (c = CHR '' '' \<or> (9 \<le> (of_char c :: nat) \<and> (of_char c :: nat) \<le> 13))"

definition digits_val :: "string \<Rightarrow> nat" where
  "digits_val ds = foldl (\<lambda>acc c. 10 * acc + ((of_char c :: nat) - 48)) 0 ds"

definition strip :: "string \<Rightarrow> string" where
  "strip s = rev (dropWhile is_space (rev (dropWhile is_space s)))"

definition split_sign :: "string \<Rightarrow> bool \<times> string" where
  "split_sign s = (case s of
       [] \<Rightarrow> (False, [])
     | c # cs \<Rightarrow> if c = CHR ''-'' then (True, cs) else if c = CHR ''+'' then (False, cs) else (False, s))"

definition parse_exponent :: "string \<Rightarrow> int option" where
  "parse_exponent s = (case s of
       [] \<Rightarrow> Some 0
     | c # cs \<Rightarrow>
         if c = CHR ''e'' \<or> c = CHR ''E'' then
           (let (neg, ds) = split_sign cs in
            if ds \<noteq> [] \<and> list_all is_digit ds
            then Some (if neg then - int (digits_val ds) else int (digits_val ds))
            else None)
         else None)"

definition pow10 :: "int \<Rightarrow> rat" where
  "pow10 e = (if 0 \<le> e then 10 ^ nat e else 1 / 10 ^ nat (- e))"

definition parse_float :: "string \<Rightarrow> rat option" where
  "parse_float s =
     (let (neg, body) = split_sign (strip s);
          ip = takeWhile is_digit body;
          r1 = dropWhile is_digit body;
          has_point = (r1 \<noteq> [] \<and> hd r1 = CHR ''.'');
          fp = (if has_point then takeWhile is_digit (tl r1) else []);
          r2 = (if has_point then dropWhile is_digit (tl r1) else r1)
      in if ip = [] \<and> fp = [] then None
         else (case parse_exponent r2 of
                 None \<Rightarrow> None
               | Some e \<Rightarrow>
                   (let m = of_nat (digits_val (ip @ fp)) / 10 ^ length fp * pow10 e
                    in Some (if neg then - m else m))))"

section \<open>Loader and cleaner\<close>

text \<open>\<open>Series.str.replace\<close> with a one-character pattern: every occurrence is replaced.\<close>

definition str_replace :: "char \<Rightarrow> string \<Rightarrow> string \<Rightarrow> string" where
  "str_replace c t s = concat (map (\<lambda>x. if x = c then t else [x]) s)"

text \<open>
  The mask \<open>astype(str).str.contains('%')\<close>: the text of a number or of NaN has no
  percent sign, so only a string cell can be selected.
\<close>

definition contains_percent :: "cell \<Rightarrow> bool" where
  "contains_percent c = (case c of Str s \<Rightarrow> CHR ''%'' \<in> set s | Num x \<Rightarrow> False | Missing \<Rightarrow> False)"

text \<open>
  The assignment under the mask: the percent sign is removed, commas become periods,
  \<open>astype(float)\<close> converts and the result is divided by 100. \<open>astype(float)\<close> raises
  ValueError on a string that is not a number.
\<close>

definition percent_to_fraction :: "string \<Rightarrow> error + rat" where
  "percent_to_fraction s =
     (case parse_float (str_replace CHR '','' ''.'' (str_replace CHR ''%'' '''' s)) of
        None \<Rightarrow> Inl ValueError
      | Some x \<Rightarrow> Inr (x / 100))"

definition handle_percent :: "cell \<Rightarrow> error + cell" where
  "handle_percent c =
     (if contains_percent c then
        (case c of
           Str s \<Rightarrow> (case percent_to_fraction s of Inl e \<Rightarrow> Inl e | Inr x \<Rightarrow> Inr (Num x))
         | Num x \<Rightarrow> Inr c
         | Missing \<Rightarrow> Inr c)
      else Inr c)"

text \<open>\<open>pd.to_numeric(..., errors='coerce')\<close>: what does not parse becomes NaN.\<close>

definition to_numeric :: "cell \<Rightarrow> rat option" where
  "to_numeric c = (case c of Str s \<Rightarrow> parse_float s | Num x \<Rightarrow> Some x | Missing \<Rightarrow> None)"

definition fillna :: "rat \<Rightarrow> rat option \<Rightarrow> rat" where
  "fillna d v = (case v of None \<Rightarrow> d | Some x \<Rightarrow> x)"

text \<open>The cleaned completion value of one raw cell.\<close>

definition clean_conclusao :: "cell \<Rightarrow> error + rat option" where
  "clean_conclusao c = (case handle_percent c of Inl e \<Rightarrow> Inl e | Inr c' \<Rightarrow> Inr (to_numeric c'))"

definition has_project_id :: "raw_row \<Rightarrow> bool" where
  "has_project_id r = (project_id r \<noteq> None \<and> project_id r \<noteq> Some [])"

definition clean_row :: "raw_row \<Rightarrow> error + row" where
  "clean_row r =
     (case clean_conclusao (conclusao r) of
        Inl e \<Rightarrow> Inl e
      | Inr cc \<Rightarrow>
          Inr (raw_row.extend r
                 (row.fields cc (fillna 0 (to_numeric (valor r)))
                                (fillna 0 (to_numeric (custo_previsto r))))))"

text \<open>The column operations work on every kept row; one ValueError aborts the call.\<close>

fun clean_rows :: "raw_row list \<Rightarrow> error + row list" where
  "clean_rows [] = Inr []"
| "clean_rows (r # rs) =
     (case clean_row r of
        Inl e \<Rightarrow> Inl e
      | Inr r' \<Rightarrow> (case clean_rows rs of Inl e \<Rightarrow> Inl e | Inr rs' \<Rightarrow> Inr (r' # rs')))"

text \<open>
  \<open>load_and_clean_data\<close>, from the frame that \<open>pd.read_csv\<close> returned: rows without a
  project identifier are removed, then the cleaned columns are added.
\<close>

definition load_and_clean_data :: "raw_row list \<Rightarrow> error + row list" where
  "load_and_clean_data df = clean_rows (filter has_project_id df)"

section \<open>Frame operations\<close>

text \<open>\<open>Series.nunique()\<close>: the number of distinct values, NaN not counted.\<close>

definition nunique :: "'a option list \<Rightarrow> nat" where
  "nunique xs = length (remdups (List.map_filter id xs))"

text \<open>
  \<open>drop_duplicates(subset=[key])\<close> keeps the first row of every key value, in order;
  missing keys count as one value.
\<close>

fun drop_dups_seen :: "('r \<Rightarrow> 'k) \<Rightarrow> 'k list \<Rightarrow> 'r list \<Rightarrow> 'r list" where
  "drop_dups_seen key seen [] = []"
| "drop_dups_seen key seen (r # rs) =
     (if key r \<in> set seen then drop_dups_seen key seen rs
      else r # drop_dups_seen key (key r # seen) rs)"

definition drop_duplicates :: "('r \<Rightarrow> 'k) \<Rightarrow> 'r list \<Rightarrow> 'r list" where
  "drop_duplicates key df = drop_dups_seen key [] df"

text \<open>
  \<open>groupby(key)\<close>: rows with a missing key belong to no group, the groups come in
  sorted key order.
\<close>

definition group_keys :: "('r \<Rightarrow> 'k::linorder option) \<Rightarrow> 'r list \<Rightarrow> 'k list" where
  "group_keys key df = sort (remdups (List.map_filter key df))"

definition group_rows :: "('r \<Rightarrow> 'k option) \<Rightarrow> 'k \<Rightarrow> 'r list \<Rightarrow> 'r list" where
  "group_rows key k df = filter (\<lambda>r. key r = Some k) df"

definition groupby :: "('r \<Rightarrow> 'k::linorder option) \<Rightarrow> 'r list \<Rightarrow> ('k \<times> 'r list) list" where
  "groupby key df = map (\<lambda>k. (k, group_rows key k df)) (group_keys key df)"

text \<open>\<open>Series.mean()\<close> skips NaN and is NaN when no value is left.\<close>

definition present :: "'a option list \<Rightarrow> 'a list" where
  "present xs = List.map_filter id xs"

definition mean :: "rat option list \<Rightarrow> rat option" where
  "mean xs = (if present xs = [] then None
              else Some (sum_list (present xs) / of_nat (length (present xs))))"

text \<open>\<open>round(2)\<close>: to the nearest hundredth, a tie to the even neighbour.\<close>

definition round_half_even :: "rat \<Rightarrow> int" where
  "round_half_even x =
     (let f = \<lfloor>x\<rfloor>; d = x - of_int f
      in if d < 1 / 2 then f else if 1 / 2 < d then f + 1 else if even f then f else f + 1)"

definition round2 :: "rat \<Rightarrow> rat" where
  "round2 x = of_int (round_half_even (x * 100)) / 100"

section \<open>Aggregator\<close>

record kpis =
  total_projects :: nat
  status_counts :: "(string \<times> nat) list"
  avg_completion :: rat
  planned_costs :: rat
  actual_costs :: rat
  cost_variance :: rat

text \<open>\<open>df.groupby('status')['project_id'].nunique().to_dict()\<close>\<close>

definition status_nunique :: "row list \<Rightarrow> (string \<times> nat) list" where
  "status_nunique df = map (\<lambda>(k, g). (k, nunique (map project_id g))) (groupby status df)"

definition calculate_kpis :: "row list \<Rightarrow> kpis" where
  "calculate_kpis df =
     (let total = nunique (map project_id df);
          counts = status_nunique df;
          avg = mean (map conclusao_clean df);
          planned = sum_list (map custo_previsto_clean (drop_duplicates project_id df));
          actual = sum_list (map valor_clean df)
      in \<lparr>total_projects = total,
          status_counts = counts,
          avg_completion = (case avg of None \<Rightarrow> 0 | Some m \<Rightarrow> m),
          planned_costs = planned,
          actual_costs = actual,
          cost_variance = (if planned > 0 then (actual - planned) / planned * 100 else 0)\<rparr>)"

record area_row =
  area_label :: string
  qtd_projetos :: nat
  custo_previsto_total :: rat
  conclusao_media :: "rat option"
  area_custo_real_total :: "rat option"

text \<open>
  The first statement of \<open>get_area_analysis\<close>: one row per department of the
  deduplicated frame, with the count of project identifiers, the sum of the planned
  costs and the mean completion, rounded to two decimals.
\<close>

definition area_agg :: "row list \<Rightarrow> (string \<times> nat \<times> rat \<times> rat option) list" where
  "area_agg df =
     map (\<lambda>(k, g). (k, length (present (map project_id g)),
                       round2 (sum_list (map custo_previsto_clean g)),
                       map_option round2 (mean (map conclusao_clean g))))
         (groupby area (drop_duplicates project_id df))"

text \<open>\<open>df.groupby('area')['valor_clean'].sum()\<close>\<close>

definition actual_costs_by_area :: "row list \<Rightarrow> (string \<times> rat) list" where
  "actual_costs_by_area df = map (\<lambda>(k, g). (k, sum_list (map valor_clean g))) (groupby area df)"

text \<open>
  \<open>area_data['custo_real'] = actual_costs_by_area\<close> assigns by index label; a label
  without a value in the series would give NaN.
\<close>

definition with_custo_real ::
  "(string \<times> rat) list \<Rightarrow> (string \<times> nat \<times> rat \<times> rat option) list \<Rightarrow> area_row list" where
  "with_custo_real actual agg =
     map (\<lambda>(k, n, p, c).
            \<lparr>area_label = k, qtd_projetos = n, custo_previsto_total = p,
             conclusao_media = c, area_custo_real_total = map_of actual k\<rparr>)
         agg"

text \<open>\<open>area_data.round(2)\<close> rounds every float column.\<close>

definition round_area :: "area_row list \<Rightarrow> area_row list" where
  "round_area rows =
     map (\<lambda>r. r\<lparr>custo_previsto_total := round2 (custo_previsto_total r),
                 conclusao_media := map_option round2 (conclusao_media r),
                 area_custo_real_total := map_option round2 (area_custo_real_total r)\<rparr>)
         rows"

definition get_area_analysis :: "row list \<Rightarrow> area_row list" where
  "get_area_analysis df =
     (let area_data = area_agg df;
          actual_costs = actual_costs_by_area df
      in round_area (with_custo_real actual_costs area_data))"

definition status_colors_base :: "(string \<times> string) list" where
  "status_colors_base =
     [(''em dia'', ''#2E8B57''), (''atrasado'', ''#FF8C00''), (''critico'', ''#DC143C''),
      (''pausado'', ''#708090''), (''concluido'', ''#4682B4''), (''andamento'', ''#3CB371'')]"

fun add_default_colors :: "string list \<Rightarrow> (string \<times> string) list \<Rightarrow> (string \<times> string) list" where
  "add_default_colors [] colors = colors"
| "add_default_colors (s # ss) colors =
     add_default_colors ss
       (if s \<in> set (map fst colors) then colors else colors @ [(s, ''#A9A9A9'')])"

definition get_status_distribution :: "row list \<Rightarrow> (string \<times> nat) list \<times> (string \<times> string) list" where
  "get_status_distribution df =
     (let counts = status_nunique df
      in (counts, add_default_colors (map fst counts) status_colors_base))"

text \<open>
  A float that a division may produce: dividing by zero raises nothing in pandas, it
  gives NaN for \<open>0/0\<close> and an infinity otherwise.
\<close>

datatype fnum = Fin rat | PosInf | NegInf | NaN

definition float_div :: "rat \<Rightarrow> rat \<Rightarrow> fnum" where
  "float_div a b =
     (if b \<noteq> 0 then Fin (a / b) else if a = 0 then NaN else if 0 < a then PosInf else NegInf)"

definition fnum_map :: "(rat \<Rightarrow> rat) \<Rightarrow> fnum \<Rightarrow> fnum" where
  "fnum_map f v = (case v of Fin x \<Rightarrow> Fin (f x) | PosInf \<Rightarrow> PosInf | NegInf \<Rightarrow> NegInf | NaN \<Rightarrow> NaN)"

record cost_row =
  cost_project_id :: "string option"
  cost_area :: "string option"
  cost_custo_previsto_clean :: rat
  custo_real_total :: rat
  variance_percent :: fnum

text \<open>\<open>df.groupby('project_id')['valor_clean'].sum().reset_index()\<close>\<close>

definition actual_by_project :: "row list \<Rightarrow> (string \<times> rat) list" where
  "actual_by_project df = map (\<lambda>(k, g). (k, sum_list (map valor_clean g))) (groupby project_id df)"

text \<open>
  The left merge on \<open>project_id\<close>: a planned row without a partner gets NaN, which
  \<open>fillna(0)\<close> replaces.
\<close>

definition merged_actual :: "(string \<times> rat) list \<Rightarrow> string option \<Rightarrow> rat option" where
  "merged_actual actual pid = (case pid of None \<Rightarrow> None | Some p \<Rightarrow> map_of actual p)"

definition merge_left :: "row list \<Rightarrow> (string \<times> rat) list \<Rightarrow> (row \<times> rat option) list" where
  "merge_left planned actual = map (\<lambda>r. (r, merged_actual actual (project_id r))) planned"

definition fill_custo_real :: "(row \<times> rat option) list \<Rightarrow> (row \<times> rat) list" where
  "fill_custo_real merged = map (\<lambda>(r, v). (r, fillna 0 v)) merged"

text \<open>The variance column: \<open>(actual - planned) / planned * 100\<close>, rounded to two decimals.\<close>

definition variance :: "rat \<Rightarrow> rat \<Rightarrow> fnum" where
  "variance actual planned =
     fnum_map round2 (fnum_map (\<lambda>q. q * 100) (float_div (actual - planned) planned))"

definition add_variance :: "(row \<times> rat) list \<Rightarrow> cost_row list" where
  "add_variance filled =
     map (\<lambda>(r, actual).
            \<lparr>cost_project_id = project_id r,
             cost_area = area r,
             cost_custo_previsto_clean = custo_previsto_clean r,
             custo_real_total = actual,
             variance_percent = variance actual (custo_previsto_clean r)\<rparr>)
         filled"

definition prepare_cost_comparison_data :: "row list \<Rightarrow> cost_row list" where
  "prepare_cost_comparison_data df =
     (let planned = drop_duplicates project_id df;
          actual = actual_by_project df;
          cost_comparison = merge_left planned actual
      in add_variance (fill_custo_real cost_comparison))"

section \<open>Formatter\<close>

text \<open>
  Python's fixed-point format \<open>{value:.nf}\<close> (with \<open>,\<close> for digit grouping): the value
  rounded to \<open>n\<close> decimals, a \<open>-\<close> for a negative value, groups of three digits in the
  integer part.
\<close>

definition digit_char :: "nat \<Rightarrow> char" where
  "digit_char d = ''0123456789'' ! d"

fun string_of_nat :: "nat \<Rightarrow> string" where
  "string_of_nat n =
     (if n < 10 then [digit_char n]
      else string_of_nat (n div 10) @ [digit_char (n mod 10)])"

declare string_of_nat.simps [simp del]

fun group3 :: "string \<Rightarrow> string" where
  "group3 (a # b # c # d # rest) = a # b # c # CHR '','' # group3 (d # rest)"
| "group3 ds = ds"

definition thousands :: "string \<Rightarrow> string" where
  "thousands ds = rev (group3 (rev ds))"

definition format_fixed :: "bool \<Rightarrow> nat \<Rightarrow> rat \<Rightarrow> string" where
  "format_fixed grouping d x =
     (let n = nat (round_half_even (\<bar>x\<bar> * 10 ^ d));
          ip = string_of_nat (n div 10 ^ d);
          fp = string_of_nat (n mod 10 ^ d)
      in (if x < 0 then ''-'' else [])
         @ (if grouping then thousands ip else ip)
         @ (if d = 0 then [] else ''.'' @ replicate (d - length fp) CHR ''0'' @ fp))"

text \<open>The argument is \<open>None\<close> when \<open>pd.isna(value)\<close> holds.\<close>

definition format_currency :: "rat option \<Rightarrow> string" where
  "format_currency v =
     (case v of
        None \<Rightarrow> ''R$ 0,00''
      | Some x \<Rightarrow>
          if x = 0 then ''R$ 0,00''
          else str_replace CHR ''X'' ''.''
                 (str_replace CHR ''.'' '',''
                    (str_replace CHR '','' ''X'' (''R$ '' @ format_fixed True 2 x))))"

definition format_percentage :: "rat option \<Rightarrow> string" where
  "format_percentage v =
     (case v of
        None \<Rightarrow> ''0,0%''
      | Some x \<Rightarrow> str_replace CHR ''.'' '','' (format_fixed False 1 x @ ''%''))"

section \<open>The pipeline of the dashboard\<close>

text \<open>\<open>main\<close> loads the cleaned frame and computes the KPIs from it.\<close>

definition load_then_kpis :: "raw_row list \<Rightarrow> error + kpis" where
  "load_then_kpis raw =
     (case load_and_clean_data raw of Inl e \<Rightarrow> Inl e | Inr df \<Rightarrow> Inr (calculate_kpis df))"

section \<open>The queries on a store of objects\<close>

text \<open>
  A DataFrame is a mutable object, and the queries receive a reference to it. To state
  that they leave the caller's frame alone, the objects live in a store: \<open>objs\<close> maps
  an address to the object there, \<open>fresh\<close> is the next unused address. A pandas method
  that returns a new frame or series allocates; an assignment to a column or to
  \<open>.columns\<close> overwrites the object it is applied to.
\<close>

datatype obj =
    Rows "row list"
  | Series "(string \<times> rat) list"
  | AreaAgg "(string \<times> nat \<times> rat \<times> rat option) list"
  | AreaRows "area_row list"
  | Merged "(row \<times> rat option) list"
  | Filled "(row \<times> rat) list"
  | CostRows "cost_row list"
  | Counts "(string \<times> nat) list"
  | Colors "(string \<times> string) list"

record store =
  objs :: "nat \<Rightarrow> obj option"
  fresh :: nat

definition new_obj :: "obj \<Rightarrow> store \<Rightarrow> nat \<times> store" where
  "new_obj v s = (fresh s, \<lparr>objs = (objs s)(fresh s \<mapsto> v), fresh = Suc (fresh s)\<rparr>)"

definition set_obj :: "nat \<Rightarrow> obj \<Rightarrow> store \<Rightarrow> store" where
  "set_obj a v s = s\<lparr>objs := (objs s)(a \<mapsto> v)\<rparr>"

text \<open>
  \<open>calculate_kpis\<close>: \<open>drop_duplicates\<close> returns a new frame, everything else is a
  series or a scalar computed from \<open>df\<close>; the result is a new dict.
\<close>

definition calculate_kpis_st :: "nat \<Rightarrow> store \<Rightarrow> kpis option \<times> store" where
  "calculate_kpis_st a s =
     (case objs s a of
        Some (Rows df) \<Rightarrow>
          (let (c, s1) = new_obj (Counts (status_nunique df)) s;
               (d, s2) = new_obj (Rows (drop_duplicates project_id df)) s1
           in (Some (calculate_kpis df), s2))
      | _ \<Rightarrow> (None, s))"

text \<open>
  \<open>get_area_analysis\<close>: \<open>area_data\<close> is a new frame; the column \<open>custo_real\<close> is
  assigned into it; \<open>round\<close> returns another new frame, whose \<open>.columns\<close> are then
  overwritten; \<open>reset_index\<close> returns the result.
\<close>

definition get_area_analysis_st :: "nat \<Rightarrow> store \<Rightarrow> area_row list option \<times> store" where
  "get_area_analysis_st a s =
     (case objs s a of
        Some (Rows df) \<Rightarrow>
          (let (d, s1) = new_obj (Rows (drop_duplicates project_id df)) s;
               agg = area_agg df;
               (area_data, s2) = new_obj (AreaAgg agg) s1;
               actual = actual_costs_by_area df;
               (ac, s3) = new_obj (Series actual) s2;
               with_real = with_custo_real actual agg;
               s4 = set_obj area_data (AreaRows with_real) s3;
               rounded = round_area with_real;
               (area_data', s5) = new_obj (AreaRows rounded) s4;
               s6 = set_obj area_data' (AreaRows rounded) s5;
               (res, s7) = new_obj (AreaRows rounded) s6
           in (Some rounded, s7))
      | _ \<Rightarrow> (None, s))"

text \<open>
  \<open>get_status_distribution\<close>: the counts are a new dict; \<open>status_colors\<close> is a dict
  literal of the call, and the loop inserts the default colours into it.
\<close>

definition get_status_distribution_st ::
  "nat \<Rightarrow> store \<Rightarrow> ((string \<times> nat) list \<times> (string \<times> string) list) option \<times> store" where
  "get_status_distribution_st a s =
     (case objs s a of
        Some (Rows df) \<Rightarrow>
          (let counts = status_nunique df;
               (c, s1) = new_obj (Counts counts) s;
               (colors, s2) = new_obj (Colors status_colors_base) s1;
               final = add_default_colors (map fst counts) status_colors_base;
               s3 = set_obj colors (Colors final) s2
           in (Some (counts, final), s3))
      | _ \<Rightarrow> (None, s))"

text \<open>
  \<open>prepare_cost_comparison_data\<close>: \<open>planned\<close>, \<open>actual\<close> and the merge are new
  frames; \<open>actual.columns\<close> is overwritten, and the two column assignments write into
  the merged frame.
\<close>

definition prepare_cost_comparison_data_st :: "nat \<Rightarrow> store \<Rightarrow> cost_row list option \<times> store" where
  "prepare_cost_comparison_data_st a s =
     (case objs s a of
        Some (Rows df) \<Rightarrow>
          (let planned_rows = drop_duplicates project_id df;
               (planned, s1) = new_obj (Rows planned_rows) s;
               actual_sums = actual_by_project df;
               (actual, s2) = new_obj (Series actual_sums) s1;
               s3 = set_obj actual (Series actual_sums) s2;
               merged = merge_left planned_rows actual_sums;
               (cost_comparison, s4) = new_obj (Merged merged) s3;
               filled = fill_custo_real merged;
               s5 = set_obj cost_comparison (Filled filled) s4;
               final = add_variance filled;
               s6 = set_obj cost_comparison (CostRows final) s5
           in (Some final, s6))
      | _ \<Rightarrow> (None, s))"

text \<open>The four queries under one name, to speak about any sequence of calls.\<close>

datatype query = Kpis | AreaAnalysis | StatusDistribution | CostComparison

datatype answer =
    KpisAnswer "kpis option"
  | AreaAnswer "area_row list option"
  | StatusAnswer "((string \<times> nat) list \<times> (string \<times> string) list) option"
  | CostAnswer "cost_row list option"

definition run_query :: "query \<Rightarrow> nat \<Rightarrow> store \<Rightarrow> answer \<times> store" where
  "run_query q a s =
     (case q of
        Kpis \<Rightarrow> map_prod KpisAnswer id (calculate_kpis_st a s)
      | AreaAnalysis \<Rightarrow> map_prod AreaAnswer id (get_area_analysis_st a s)
      | StatusDistribution \<Rightarrow> map_prod StatusAnswer id (get_status_distribution_st a s)
      | CostComparison \<Rightarrow> map_prod CostAnswer id (prepare_cost_comparison_data_st a s))"

text \<open>The answer of the pure function, for comparison.\<close>

definition pure_answer :: "query \<Rightarrow> row list \<Rightarrow> answer" where
  "pure_answer q df =
     (case q of
        Kpis \<Rightarrow> KpisAnswer (Some (calculate_kpis df))
      | AreaAnalysis \<Rightarrow> AreaAnswer (Some (get_area_analysis df))
      | StatusDistribution \<Rightarrow> StatusAnswer (Some (get_status_distribution df))
      | CostComparison \<Rightarrow> CostAnswer (Some (prepare_cost_comparison_data df)))"

section \<open>Concrete tables\<close>

definition raw :: "string option \<Rightarrow> string option \<Rightarrow> string option \<Rightarrow> cell \<Rightarrow> cell \<Rightarrow> cell \<Rightarrow> raw_row" where
  "raw p a st c v cp =
     \<lparr>project_id = p, area = a, status = st, conclusao = c, valor = v, custo_previsto = cp\<rparr>"

text \<open>The cleaned row of a raw row whose cells are numbers or missing.\<close>

definition cleaned ::
  "string option \<Rightarrow> string option \<Rightarrow> string option \<Rightarrow> rat option \<Rightarrow> rat \<Rightarrow> rat \<Rightarrow> row" where
  "cleaned p a st c v cp =
     \<lparr>project_id = p, area = a, status = st,
      conclusao = (case c of None \<Rightarrow> Missing | Some x \<Rightarrow> Num x),
      valor = Num v, custo_previsto = Num cp,
      conclusao_clean = c, valor_clean = v, custo_previsto_clean = cp\<rparr>"

text \<open>The three rows of the end-to-end scenario.\<close>

definition scenario_rows :: "raw_row list" where
  "scenario_rows =
     [raw (Some ''P1'') (Some ''A'') (Some ''em dia'') (Str ''50%'') (Num 400) (Num 1000),
      raw (Some ''P1'') (Some ''A'') (Some ''em dia'') (Str ''50%'') (Num 200) (Num 1000),
      raw (Some ''P2'') (Some ''B'') (Some ''atrasado'') (Num (2 / 10)) (Num 600) (Num 500)]"

text \<open>Three raw rows, two of them without a project identifier.\<close>

definition id_rows :: "raw_row list" where
  "id_rows =
     [raw (Some ''P1'') (Some ''A'') (Some ''em dia'') (Num (1 / 2)) (Num 10) (Num 20),
      raw None (Some ''A'') (Some ''em dia'') (Num (1 / 2)) (Num 1) (Num 2),
      raw (Some []) (Some ''B'') (Some ''atrasado'') Missing (Num 3) (Num 4)]"

text \<open>A cleaned table with one missing completion value.\<close>

definition mean_rows :: "row list" where
  "mean_rows =
     [cleaned (Some ''P1'') (Some ''A'') (Some ''em dia'') (Some (1 / 2)) 10 20,
      cleaned (Some ''P2'') (Some ''A'') (Some ''em dia'') None 10 20,
      cleaned (Some ''P3'') (Some ''B'') (Some ''atrasado'') (Some (3 / 10)) 10 20]"

text \<open>A cleaned table with a repeated project and two departments.\<close>

definition two_area_rows :: "row list" where
  "two_area_rows =
     [cleaned (Some ''P1'') (Some ''A'') (Some ''em dia'') (Some (1 / 2)) 400 1000,
      cleaned (Some ''P1'') (Some ''A'') (Some ''em dia'') (Some (1 / 2)) 200 1000,
      cleaned (Some ''P2'') (Some ''B'') (Some ''atrasado'') (Some (1 / 5)) 600 500]"

text \<open>One project whose planned cost is negative, raw and cleaned.\<close>

definition negative_planned_rows :: "raw_row list" where
  "negative_planned_rows =
     [raw (Some ''P1'') (Some ''A'') (Some ''em dia'') (Num (1 / 2)) (Num 50) (Num (- 100))]"

definition negative_planned_clean :: "row list" where
  "negative_planned_clean =
     [cleaned (Some ''P1'') (Some ''A'') (Some ''em dia'') (Some (1 / 2)) 50 (- 100)]"

text \<open>One project whose planned cost is zero, raw and cleaned.\<close>

definition zero_planned_rows :: "raw_row list" where
  "zero_planned_rows =
     [raw (Some ''P1'') (Some ''A'') (Some ''em dia'') (Num (1 / 2)) (Num 50) (Num 0)]"

definition zero_planned_clean :: "row list" where
  "zero_planned_clean =
     [cleaned (Some ''P1'') (Some ''A'') (Some ''em dia'') (Some (1 / 2)) 50 0]"

text \<open>One row whose completion cell has a percent sign and no number.\<close>

definition bad_percent_rows :: "raw_row list" where
  "bad_percent_rows =
     [raw (Some ''P1'') (Some ''A'') (Some ''em dia'') (Str ''abc%'') (Num 1) (Num 1)]"

text \<open>An amount that rounding to two decimals leaves as it is.\<close>

definition whole_cents :: "rat \<Rightarrow> bool" where
  "whole_cents x = (round2 x = x)"

text \<open>One project with a planned cost of 0.004, raw and cleaned.\<close>

definition small_cost_rows :: "raw_row list" where
  "small_cost_rows =
     [raw (Some ''P1'') (Some ''A'') (Some ''em dia'') (Num (1 / 2)) (Num 50) (Num (4 / 1000))]"

definition small_cost_clean :: "row list" where
  "small_cost_clean =
     [cleaned (Some ''P1'') (Some ''A'') (Some ''em dia'') (Some (1 / 2)) 50 (4 / 1000)]"

text \<open>One project without a department, raw and cleaned.\<close>

definition no_area_rows :: "raw_row list" where
  "no_area_rows =
     [raw (Some ''P1'') None (Some ''em dia'') (Num (1 / 2)) (Num 50) (Num 100)]"

definition no_area_clean :: "row list" where
  "no_area_clean =
     [cleaned (Some ''P1'') None (Some ''em dia'') (Some (1 / 2)) 50 100]"

text \<open>A store that holds one cleaned table, at address 0.\<close>

definition two_area_store :: store where
  "two_area_store =
     \<lparr>objs = (\<lambda>a. if a = 0 then Some (Rows two_area_rows) else None), fresh = 1\<rparr>"

section \<open>Properties of the cleaner\<close>

lemma truncate_extend: "raw_row.truncate (raw_row.extend r m) = (r::raw_row)"
  by (cases r) (simp add: raw_row.truncate_def raw_row.extend_def)

lemma project_id_extend: "project_id (raw_row.extend r m) = project_id r"
  by (cases r) (simp add: raw_row.extend_def)

lemma clean_row_truncate: "clean_row r = Inr r' \<Longrightarrow> raw_row.truncate r' = r"
  by (auto simp: clean_row_def truncate_extend split: sum.splits)

lemma clean_row_project_id: "clean_row r = Inr r' \<Longrightarrow> project_id r' = project_id r"
  by (auto simp: clean_row_def project_id_extend split: sum.splits)

lemma clean_rows_truncate: "clean_rows rs = Inr df \<Longrightarrow> map raw_row.truncate df = rs"
proof (induction rs arbitrary: df)
  case Nil
  then show ?case by simp
next
  case (Cons r rs)
  then show ?case
    by (auto simp: clean_row_truncate split: sum.splits)
qed

lemma clean_rows_project_ids: "clean_rows rs = Inr df \<Longrightarrow> map project_id df = map project_id rs"
proof (induction rs arbitrary: df)
  case Nil
  then show ?case by simp
next
  case (Cons r rs)
  then show ?case
    by (auto simp: clean_row_project_id split: sum.splits)
qed

text \<open>
  Claim C7. When the cleaner returns a table, its rows are, in order and with their raw
  columns unchanged, exactly the raw rows whose project identifier is neither null nor the
  empty string: every other row is dropped, and no surviving row has a missing or empty
  project identifier.
\<close>

theorem cleaning_drops_rows_without_project_id:
  assumes "load_and_clean_data rows = Inr df"
  shows "map raw_row.truncate df
           = filter (\<lambda>r. project_id r \<noteq> None \<and> project_id r \<noteq> Some []) rows
         \<and> (\<forall>r \<in> set df. project_id r \<noteq> None \<and> project_id r \<noteq> Some [])"
proof
  have kept: "clean_rows (filter has_project_id rows) = Inr df"
    using assms by (simp add: load_and_clean_data_def)
  have same: "filter has_project_id rows
                = filter (\<lambda>r. project_id r \<noteq> None \<and> project_id r \<noteq> Some []) rows"
    by (rule filter_cong) (simp_all add: has_project_id_def)
  show "map raw_row.truncate df
          = filter (\<lambda>r. project_id r \<noteq> None \<and> project_id r \<noteq> Some []) rows"
    using clean_rows_truncate [OF kept] same by simp
  have ids: "map project_id df = map project_id (filter has_project_id rows)"
    by (rule clean_rows_project_ids [OF kept])
  show "\<forall>r \<in> set df. project_id r \<noteq> None \<and> project_id r \<noteq> Some []"
  proof
    fix r assume "r \<in> set df"
    then have "project_id r \<in> set (map project_id df)" by simp
    then have "project_id r \<in> project_id ` set (filter has_project_id rows)"
      using ids by simp
    then show "project_id r \<noteq> None \<and> project_id r \<noteq> Some []"
      by (auto simp: has_project_id_def)
  qed
qed

theorem cleaning_drops_rows_without_project_id_witness:
  "load_and_clean_data id_rows
     = Inr [cleaned (Some ''P1'') (Some ''A'') (Some ''em dia'') (Some (1 / 2)) 10 20]
   \<and> map raw_row.truncate [cleaned (Some ''P1'') (Some ''A'') (Some ''em dia'') (Some (1 / 2)) 10 20]
       = filter (\<lambda>r. project_id r \<noteq> None \<and> project_id r \<noteq> Some []) id_rows
   \<and> project_id (cleaned (Some ''P1'') (Some ''A'') (Some ''em dia'') (Some (1 / 2)) 10 20) \<noteq> None
   \<and> project_id (cleaned (Some ''P1'') (Some ''A'') (Some ''em dia'') (Some (1 / 2)) 10 20) \<noteq> Some []"
proof -
  have h: "load_and_clean_data id_rows
             = Inr [cleaned (Some ''P1'') (Some ''A'') (Some ''em dia'') (Some (1 / 2)) 10 20]"
    by code_simp
  show ?thesis
    using h cleaning_drops_rows_without_project_id [OF h] by simp
qed

section \<open>Properties of the KPIs\<close>

lemma map_filter_id_map:
  "List.map_filter id (map f xs) = map (\<lambda>x. the (f x)) (filter (\<lambda>x. f x \<noteq> None) xs)"
  by (induction xs) (auto simp: List.map_filter_simps split: option.splits)

text \<open>
  Claim C3. The \<open>avg_completion\<close> KPI is the arithmetic mean of the cleaned completion
  values of exactly the rows where the value is present (rows with a missing value are
  left out, not counted as zero), and it is 0 when no row has a value.
\<close>

theorem avg_completion_is_mean_of_present:
  "avg_completion (calculate_kpis df) =
     (let rs = filter (\<lambda>r. conclusao_clean r \<noteq> None) df
      in if rs = [] then 0
         else sum_list (map (\<lambda>r. the (conclusao_clean r)) rs) / of_nat (length rs))"
  by (simp add: calculate_kpis_def Let_def mean_def present_def map_filter_id_map)

theorem avg_completion_is_mean_of_present_witness:
  "avg_completion (calculate_kpis mean_rows) = 4 / 10"
proof -
  have e: "(let rs = filter (\<lambda>r. conclusao_clean r \<noteq> None) mean_rows
            in if rs = [] then 0
               else sum_list (map (\<lambda>r. the (conclusao_clean r)) rs) / of_nat (length rs)) = 4 / 10"
    by code_simp
  show ?thesis
    unfolding avg_completion_is_mean_of_present [of mean_rows] by (rule e)
qed

text \<open>
  Claim C5, as the code has it. The \<open>cost_variance\<close> KPI is
  \<open>(actual_costs - planned_costs) / planned_costs * 100\<close> when the deduplicated
  planned-cost sum is greater than 0, and exactly 0 otherwise, whatever the actual costs
  are: the guard of the code is \<open>planned_costs > 0\<close>, so a negative sum gives 0 too.
\<close>

theorem cost_variance_guarded:
  "cost_variance (calculate_kpis df) =
     (if 0 < planned_costs (calculate_kpis df)
      then (actual_costs (calculate_kpis df) - planned_costs (calculate_kpis df))
             / planned_costs (calculate_kpis df) * 100
      else 0)"
  by (simp add: calculate_kpis_def Let_def)

theorem cost_variance_guarded_witness:
  "planned_costs (calculate_kpis zero_planned_clean) = 0
   \<and> actual_costs (calculate_kpis zero_planned_clean) = 50
   \<and> cost_variance (calculate_kpis zero_planned_clean) = 0"
proof -
  have p: "planned_costs (calculate_kpis zero_planned_clean) = 0" by code_simp
  have a: "actual_costs (calculate_kpis zero_planned_clean) = 50" by code_simp
  show ?thesis
    using p a cost_variance_guarded [of zero_planned_clean] by simp
qed

text \<open>
  The claim as stated fails for a negative planned-cost sum: it is not zero, and the
  KPI is 0, not the quotient.
\<close>

theorem cost_variance_negative_planned_counterexample:
  "load_and_clean_data negative_planned_rows = Inr negative_planned_clean
   \<and> planned_costs (calculate_kpis negative_planned_clean) \<noteq> 0
   \<and> cost_variance (calculate_kpis negative_planned_clean)
       \<noteq> (actual_costs (calculate_kpis negative_planned_clean)
            - planned_costs (calculate_kpis negative_planned_clean))
           / planned_costs (calculate_kpis negative_planned_clean) * 100"
proof -
  have l: "load_and_clean_data negative_planned_rows = Inr negative_planned_clean"
    by code_simp
  have p: "planned_costs (calculate_kpis negative_planned_clean) = - 100" by code_simp
  have a: "actual_costs (calculate_kpis negative_planned_clean) = 50" by code_simp
  have v: "cost_variance (calculate_kpis negative_planned_clean) = 0" by code_simp
  show ?thesis by (simp add: l p a v)
qed

section \<open>Status counts\<close>

lemma status_counts_same:
  "fst (get_status_distribution df) = status_counts (calculate_kpis df)"
  by (simp add: get_status_distribution_def calculate_kpis_def Let_def)

lemma map_of_tabulate:
  "map_of (map (\<lambda>k. (k, f k)) ks) s = (if s \<in> set ks then Some (f s) else None)"
  by (induction ks) auto

lemma set_map_filter: "set (List.map_filter f xs) = {y. \<exists>x \<in> set xs. f x = Some y}"
  by (induction xs) (auto simp: List.map_filter_simps split: option.splits)

lemma set_group_keys: "set (group_keys key df) = {k. \<exists>r \<in> set df. key r = Some k}"
  by (simp add: group_keys_def set_map_filter)

lemma nunique_card: "nunique xs = card {p. Some p \<in> set xs}"
proof -
  have "set (List.map_filter id xs) = {p. Some p \<in> set xs}"
    by (auto simp: set_map_filter)
  then show ?thesis
    by (simp add: nunique_def length_remdups_card_conv)
qed

lemma status_nunique_lookup:
  "map_of (status_nunique df) s =
     (if \<exists>r \<in> set df. status r = Some s
      then Some (card {p. \<exists>r \<in> set df. status r = Some s \<and> project_id r = Some p})
      else None)"
proof -
  have tab: "status_nunique df =
      map (\<lambda>k. (k, nunique (map project_id (group_rows status k df)))) (group_keys status df)"
    by (simp add: status_nunique_def groupby_def)
  have grp: "{p. Some p \<in> set (map project_id (group_rows status s df))} =
      {p. \<exists>r \<in> set df. status r = Some s \<and> project_id r = Some p}"
    by (auto simp: group_rows_def image_iff)
  show ?thesis
    unfolding tab map_of_tabulate set_group_keys nunique_card grp by simp
qed

text \<open>
  Claim C10. The \<open>status_counts\<close> field of \<open>calculate_kpis\<close> and the counts returned by
  \<open>get_status_distribution\<close> are the same mapping from status name to count, and the
  count of a status is the number of distinct project identifiers on the rows with that
  status; a status on no row has no entry.
\<close>

theorem status_counts_agree:
  "map_of (fst (get_status_distribution df)) = map_of (status_counts (calculate_kpis df))
   \<and> (\<forall>s. map_of (status_counts (calculate_kpis df)) s =
          (if \<exists>r \<in> set df. status r = Some s
           then Some (card {p. \<exists>r \<in> set df. status r = Some s \<and> project_id r = Some p})
           else None))"
proof
  show "map_of (fst (get_status_distribution df)) = map_of (status_counts (calculate_kpis df))"
    by (simp add: status_counts_same)
  have "status_counts (calculate_kpis df) = status_nunique df"
    by (simp add: calculate_kpis_def Let_def)
  then show "\<forall>s. map_of (status_counts (calculate_kpis df)) s =
          (if \<exists>r \<in> set df. status r = Some s
           then Some (card {p. \<exists>r \<in> set df. status r = Some s \<and> project_id r = Some p})
           else None)"
    by (simp add: status_nunique_lookup)
qed

theorem status_counts_agree_witness:
  "map_of (fst (get_status_distribution two_area_rows))
     = map_of (status_counts (calculate_kpis two_area_rows))
   \<and> status_counts (calculate_kpis two_area_rows) = [(''atrasado'', 1), (''em dia'', 1)]
   \<and> card {p. \<exists>r \<in> set two_area_rows. status r = Some ''em dia'' \<and> project_id r = Some p} = 1"
proof -
  have v: "status_counts (calculate_kpis two_area_rows) = [(''atrasado'', 1), (''em dia'', 1)]"
    by code_simp
  have on_row: "\<exists>r \<in> set two_area_rows. status r = Some ''em dia''"
    by (simp add: two_area_rows_def cleaned_def)
  have "map_of (status_counts (calculate_kpis two_area_rows)) ''em dia''
          = Some (card {p. \<exists>r \<in> set two_area_rows. status r = Some ''em dia'' \<and> project_id r = Some p})"
    using status_counts_agree [of two_area_rows] on_row by simp
  then have "card {p. \<exists>r \<in> set two_area_rows. status r = Some ''em dia'' \<and> project_id r = Some p} = 1"
    by (simp add: v)
  then show ?thesis
    using v status_counts_agree [of two_area_rows] by simp
qed

section \<open>The end-to-end scenario\<close>

text \<open>
  Claim C1, as the code has it. On the three rows of the scenario the cleaner followed by
  \<open>calculate_kpis\<close> gives total_projects 2, one project for each of the two statuses,
  planned costs 1500, actual costs 1200 and cost variance -20; the average completion is
  0.4, the mean over the three rows (0.5, 0.5, 0.2), since \<open>calculate_kpis\<close> averages
  the column without dropping the repeated project.
\<close>

theorem scenario_kpis:
  "load_then_kpis scenario_rows =
     Inr \<lparr>total_projects = 2,
          status_counts = [(''atrasado'', 1), (''em dia'', 1)],
          avg_completion = 4 / 10,
          planned_costs = 1500,
          actual_costs = 1200,
          cost_variance = - 20\<rparr>"
  by code_simp

text \<open>The average completion of the scenario is not 0.35.\<close>

theorem scenario_avg_completion_counterexample:
  "map_sum id avg_completion (load_then_kpis scenario_rows) \<noteq> Inr (35 / 100)"
  by code_simp

section \<open>Completion cells\<close>

lemma clean_conclusao_no_percent:
  "\<not> contains_percent c \<Longrightarrow> clean_conclusao c = Inr (to_numeric c)"
  by (simp add: clean_conclusao_def handle_percent_def)

lemma clean_conclusao_percent:
  "CHR ''%'' \<in> set s \<Longrightarrow>
     clean_conclusao (Str s) =
       (case parse_float (str_replace CHR '','' ''.'' (str_replace CHR ''%'' [] s)) of
          None \<Rightarrow> Inl ValueError
        | Some x \<Rightarrow> Inr (Some (x / 100)))"
  by (simp add: clean_conclusao_def handle_percent_def contains_percent_def
      percent_to_fraction_def to_numeric_def split: option.splits)

lemma clean_conclusao_comma_percent: "clean_conclusao (Str ''0,7%'') = Inr (Some (7 / 1000))"
  by code_simp

lemma clean_conclusao_percent_70: "clean_conclusao (Str ''70%'') = Inr (Some (70 / 100))"
  by code_simp

lemma clean_conclusao_fraction: "clean_conclusao (Str ''0.55'') = Inr (Some (55 / 100))"
  by code_simp

lemma clean_conclusao_unparsable: "clean_conclusao (Str ''abc'') = Inr None"
  by code_simp

text \<open>
  Claim C2 at the cell \<open>abc%\<close>: the cell has a percent sign, so it goes through
  \<open>astype(float)\<close>, which raises; the cell does not become a missing value, and the whole
  load fails.
\<close>

theorem unparsable_percent_cell_raises:
  "clean_conclusao (Str ''abc%'') = Inl ValueError
   \<and> load_and_clean_data bad_percent_rows = Inl ValueError"
proof
  show "clean_conclusao (Str ''abc%'') = Inl ValueError" by code_simp
  show "load_and_clean_data bad_percent_rows = Inl ValueError" by code_simp
qed

section \<open>Cost comparison\<close>

lemma variance_nonzero_planned:
  "p \<noteq> 0 \<Longrightarrow> variance a p = Fin (round2 ((a - p) / p * 100))"
  by (simp add: variance_def float_div_def fnum_map_def)

lemma variance_zero_planned:
  "variance a 0 = (if a = 0 then NaN else if 0 < a then PosInf else NegInf)"
  by (simp add: variance_def float_div_def fnum_map_def)

lemma cost_row_variance:
  "r \<in> set (prepare_cost_comparison_data df) \<Longrightarrow>
     variance_percent r = variance (custo_real_total r) (cost_custo_previsto_clean r)"
  by (auto simp: prepare_cost_comparison_data_def Let_def add_variance_def)

text \<open>
  Claim C4 at a project with planned cost 0 and actual cost 50: the variance column holds
  positive infinity, not 0.
\<close>

theorem zero_planned_variance_is_infinite:
  "load_and_clean_data zero_planned_rows = Inr zero_planned_clean
   \<and> map variance_percent (prepare_cost_comparison_data zero_planned_clean) = [PosInf]"
proof
  show "load_and_clean_data zero_planned_rows = Inr zero_planned_clean" by code_simp
  show "map variance_percent (prepare_cost_comparison_data zero_planned_clean) = [PosInf]"
    by code_simp
qed

section \<open>Formatting\<close>

lemma round_half_even_123450: "round_half_even 123450 = 123450"
  by code_simp

lemma round_half_even_617_5: "round_half_even (617 / 5) = 123"
  by code_simp

lemma format_fixed_1234_50: "format_fixed True 2 (12345 / 10) = ''1,234.50''"
  by (simp add: format_fixed_def Let_def round_half_even_123450 string_of_nat.simps
      digit_char_def thousands_def)

lemma format_fixed_12_3: "format_fixed False 1 (1234 / 100) = ''12.3''"
  by (simp add: format_fixed_def Let_def round_half_even_617_5 string_of_nat.simps
      digit_char_def)

text \<open>
  Claim C8. \<open>format_currency\<close> gives \<open>R$ 0,00\<close> for 0 and for a missing value and
  \<open>R$ 1.234,50\<close> for 1234.5; \<open>format_percentage\<close> gives \<open>0,0%\<close> for a missing value
  and \<open>12,3%\<close> for 12.34.
\<close>

theorem formatter_examples:
  "format_currency (Some 0) = ''R$ 0,00''
   \<and> format_currency None = ''R$ 0,00''
   \<and> format_currency (Some (12345 / 10)) = ''R$ 1.234,50''
   \<and> format_percentage None = ''0,0%''
   \<and> format_percentage (Some (1234 / 100)) = ''12,3%''"
proof -
  have c: "format_currency (Some (12345 / 10)) = ''R$ 1.234,50''"
    using format_fixed_1234_50 by (simp add: format_currency_def str_replace_def)
  have p: "format_percentage (Some (1234 / 100)) = ''12,3%''"
    using format_fixed_12_3 by (simp add: format_percentage_def str_replace_def)
  show ?thesis
    using c p by (simp add: format_currency_def format_percentage_def)
qed

section \<open>Planned costs by department\<close>

lemma sum_list_sort_remdups:
  fixes g :: "'k::linorder \<Rightarrow> rat"
  shows "sum_list (map g (sort (remdups ks))) = sum g (set ks)"
proof -
  have "distinct (sort (remdups ks))" by simp
  then have "sum_list (map g (sort (remdups ks))) = sum g (set (sort (remdups ks)))"
    by (rule sum_list_distinct_conv_sum_set)
  then show ?thesis by simp
qed

lemma sum_over_keys_of_groups:
  fixes f :: "'r \<Rightarrow> rat"
  assumes "finite K"
  shows "(\<Sum>k\<in>K. sum_list (map f (filter (\<lambda>r. key r = Some k) xs)))
           = sum_list (map f (filter (\<lambda>r. key r \<in> Some ` K) xs))"
proof (induction xs)
  case Nil
  then show ?case by simp
next
  case (Cons x xs)
  have step: "sum_list (map f (filter (\<lambda>r. key r = Some k) (x # xs)))
      = (if key x = Some k then f x else 0)
        + sum_list (map f (filter (\<lambda>r. key r = Some k) xs))" for k
    by simp
  have split: "(\<Sum>k\<in>K. sum_list (map f (filter (\<lambda>r. key r = Some k) (x # xs))))
      = (\<Sum>k\<in>K. if key x = Some k then f x else 0)
        + (\<Sum>k\<in>K. sum_list (map f (filter (\<lambda>r. key r = Some k) xs)))"
    unfolding step by (rule sum.distrib)
  have head: "(\<Sum>k\<in>K. if key x = Some k then f x else 0)
      = (if key x \<in> Some ` K then f x else 0)"
  proof (cases "key x")
    case None
    then show ?thesis by auto
  next
    case (Some k0)
    have "(\<Sum>k\<in>K. if Some k0 = Some k then f x else 0) = (\<Sum>k\<in>K. if k0 = k then f x else 0)"
      by simp
    also have "\<dots> = (if k0 \<in> K then f x else 0)"
      using assms by (simp add: sum.delta')
    finally show ?thesis using Some by auto
  qed
  show ?case
    unfolding split head Cons.IH by simp
qed

lemma group_sum:
  fixes f :: "'r \<Rightarrow> rat"
  shows "sum_list (map (\<lambda>k. sum_list (map f (group_rows key k xs))) (group_keys key xs))
           = sum_list (map f (filter (\<lambda>r. key r \<noteq> None) xs))"
proof -
  let ?K = "{k. \<exists>r \<in> set xs. key r = Some k}"
  have fin: "finite ?K"
  proof -
    have "?K = set (List.map_filter key xs)" by (simp add: set_map_filter)
    then show ?thesis by simp
  qed
  have "sum_list (map (\<lambda>k. sum_list (map f (group_rows key k xs))) (group_keys key xs))
          = (\<Sum>k\<in>?K. sum_list (map f (filter (\<lambda>r. key r = Some k) xs)))"
    by (simp add: group_keys_def group_rows_def sum_list_sort_remdups set_map_filter)
  also have "\<dots> = sum_list (map f (filter (\<lambda>r. key r \<in> Some ` ?K) xs))"
    by (rule sum_over_keys_of_groups [OF fin])
  also have "filter (\<lambda>r. key r \<in> Some ` ?K) xs = filter (\<lambda>r. key r \<noteq> None) xs"
    by (rule filter_cong) auto
  finally show ?thesis .
qed

lemma area_planned_column:
  "map custo_previsto_total (get_area_analysis df) =
     map (\<lambda>k. round2 (round2 (sum_list (map custo_previsto_clean
                (group_rows area k (drop_duplicates project_id df))))))
         (group_keys area (drop_duplicates project_id df))"
  by (simp add: get_area_analysis_def Let_def round_area_def with_custo_real_def area_agg_def
      groupby_def comp_def split_def)

lemma area_planned_sum:
  assumes areas: "\<forall>r \<in> set (drop_duplicates project_id df). area r \<noteq> None"
    and cents: "\<forall>k \<in> set (group_keys area (drop_duplicates project_id df)).
        whole_cents (sum_list (map custo_previsto_clean
          (group_rows area k (drop_duplicates project_id df))))"
  shows "sum_list (map custo_previsto_total (get_area_analysis df))
           = planned_costs (calculate_kpis df)"
proof -
  let ?D = "drop_duplicates project_id df"
  let ?S = "\<lambda>k. sum_list (map custo_previsto_clean (group_rows area k ?D))"
  have unrounded:
    "map (\<lambda>k. round2 (round2 (?S k))) (group_keys area ?D) = map ?S (group_keys area ?D)"
    unfolding map_eq_conv using cents by (simp add: whole_cents_def)
  have "sum_list (map custo_previsto_total (get_area_analysis df))
      = sum_list (map ?S (group_keys area ?D))"
    by (simp only: area_planned_column unrounded)
  also have "\<dots> = sum_list (map custo_previsto_clean (filter (\<lambda>r. area r \<noteq> None) ?D))"
    by (rule group_sum)
  also have "filter (\<lambda>r. area r \<noteq> None) ?D = ?D"
    using areas by (simp add: filter_id_conv)
  finally show ?thesis
    by (simp add: calculate_kpis_def Let_def)
qed

text \<open>
  Claim C6, as the code has it. When the first row of every project has a department and
  the planned-cost sum of every department is a whole number of cents, the planned-cost
  aggregates of \<open>get_area_analysis\<close> add up to the deduplicated planned-cost sum of
  \<open>calculate_kpis\<close>: a project with repeated rows is counted once on both sides.
\<close>

theorem area_planned_costs_add_up:
  assumes "\<forall>r \<in> set (drop_duplicates project_id df). area r \<noteq> None"
    and "\<forall>k \<in> set (group_keys area (drop_duplicates project_id df)).
        whole_cents (sum_list (map custo_previsto_clean
          (group_rows area k (drop_duplicates project_id df))))"
  shows "sum_list (map custo_previsto_total (get_area_analysis df))
           = planned_costs (calculate_kpis df)"
  using assms by (rule area_planned_sum)

theorem area_planned_costs_add_up_witness:
  "map custo_previsto_total (get_area_analysis two_area_rows) = [1000, 500]
   \<and> planned_costs (calculate_kpis two_area_rows) = 1500"
proof -
  have areas: "\<forall>r \<in> set (drop_duplicates project_id two_area_rows). area r \<noteq> None"
    by code_simp
  have cents: "\<forall>k \<in> set (group_keys area (drop_duplicates project_id two_area_rows)).
        whole_cents (sum_list (map custo_previsto_clean
          (group_rows area k (drop_duplicates project_id two_area_rows))))"
    by code_simp
  have col: "map custo_previsto_total (get_area_analysis two_area_rows) = [1000, 500]"
    by code_simp
  show ?thesis
    using col area_planned_costs_add_up [OF areas cents] by simp
qed

text \<open>
  The claim as stated fails in two ways: a department sum that is not a whole number of
  cents is rounded by \<open>get_area_analysis\<close> and not by \<open>calculate_kpis\<close>, and a project
  without a department is in no group.
\<close>

theorem area_planned_costs_counterexample:
  "load_and_clean_data small_cost_rows = Inr small_cost_clean
   \<and> sum_list (map custo_previsto_total (get_area_analysis small_cost_clean))
       \<noteq> planned_costs (calculate_kpis small_cost_clean)
   \<and> load_and_clean_data no_area_rows = Inr no_area_clean
   \<and> sum_list (map custo_previsto_total (get_area_analysis no_area_clean))
       \<noteq> planned_costs (calculate_kpis no_area_clean)"
proof -
  have l1: "load_and_clean_data small_cost_rows = Inr small_cost_clean" by code_simp
  have a1: "sum_list (map custo_previsto_total (get_area_analysis small_cost_clean)) = 0"
    by code_simp
  have k1: "planned_costs (calculate_kpis small_cost_clean) = 4 / 1000" by code_simp
  have l2: "load_and_clean_data no_area_rows = Inr no_area_clean" by code_simp
  have a2: "sum_list (map custo_previsto_total (get_area_analysis no_area_clean)) = 0"
    by code_simp
  have k2: "planned_costs (calculate_kpis no_area_clean) = 100" by code_simp
  show ?thesis by (simp add: l1 a1 k1 l2 a2 k2)
qed

lemma whole_cents_iff: "whole_cents x \<longleftrightarrow> x * 100 \<in> \<int>"
proof
  assume "whole_cents x"
  then have "x * 100 = of_int (round_half_even (x * 100))"
    by (simp add: whole_cents_def round2_def)
  then show "x * 100 \<in> \<int>" by (metis Ints_of_int)
next
  assume "x * 100 \<in> \<int>"
  then obtain n :: int where n: "x * 100 = of_int n" by (auto elim: Ints_cases)
  have "round_half_even (of_int n) = n"
    by (simp add: round_half_even_def Let_def)
  then show "whole_cents x"
    using n by (simp add: whole_cents_def round2_def)
qed

lemma whole_cents_sum_list:
  "\<forall>r \<in> set rs. whole_cents (f r) \<Longrightarrow> whole_cents (sum_list (map f rs))"
proof (induction rs)
  case Nil
  then show ?case by (simp add: whole_cents_iff)
next
  case (Cons r rs)
  then have "f r * 100 \<in> \<int>" and "sum_list (map f rs) * 100 \<in> \<int>"
    by (simp_all add: whole_cents_iff)
  then have "f r * 100 + sum_list (map f rs) * 100 \<in> \<int>" by (rule Ints_add)
  then show ?case by (simp add: whole_cents_iff distrib_right)
qed

lemma area_planned_sum_whole_cents:
  assumes "\<forall>r \<in> set (drop_duplicates project_id df). area r \<noteq> None"
    and "\<forall>r \<in> set (drop_duplicates project_id df). whole_cents (custo_previsto_clean r)"
  shows "sum_list (map custo_previsto_total (get_area_analysis df))
           = planned_costs (calculate_kpis df)"
proof (rule area_planned_sum [OF assms(1)])
  show "\<forall>k \<in> set (group_keys area (drop_duplicates project_id df)).
        whole_cents (sum_list (map custo_previsto_clean
          (group_rows area k (drop_duplicates project_id df))))"
    using assms(2) by (auto intro!: whole_cents_sum_list simp: group_rows_def)
qed

section \<open>The queries do not write to their argument\<close>

lemma calculate_kpis_st_frame:
  assumes "objs s a = Some (Rows df)"
  shows "fst (calculate_kpis_st a s) = Some (calculate_kpis df)"
    and "fresh s \<le> fresh (snd (calculate_kpis_st a s))"
    and "b < fresh s \<Longrightarrow> objs (snd (calculate_kpis_st a s)) b = objs s b"
  using assms by (simp_all add: calculate_kpis_st_def new_obj_def Let_def)

lemma get_area_analysis_st_frame:
  assumes "objs s a = Some (Rows df)"
  shows "fst (get_area_analysis_st a s) = Some (get_area_analysis df)"
    and "fresh s \<le> fresh (snd (get_area_analysis_st a s))"
    and "b < fresh s \<Longrightarrow> objs (snd (get_area_analysis_st a s)) b = objs s b"
  using assms
  by (simp_all add: get_area_analysis_st_def get_area_analysis_def new_obj_def set_obj_def Let_def)

lemma get_status_distribution_st_frame:
  assumes "objs s a = Some (Rows df)"
  shows "fst (get_status_distribution_st a s) = Some (get_status_distribution df)"
    and "fresh s \<le> fresh (snd (get_status_distribution_st a s))"
    and "b < fresh s \<Longrightarrow> objs (snd (get_status_distribution_st a s)) b = objs s b"
  using assms
  by (simp_all add: get_status_distribution_st_def get_status_distribution_def new_obj_def
      set_obj_def Let_def)

lemma prepare_cost_comparison_data_st_frame:
  assumes "objs s a = Some (Rows df)"
  shows "fst (prepare_cost_comparison_data_st a s) = Some (prepare_cost_comparison_data df)"
    and "fresh s \<le> fresh (snd (prepare_cost_comparison_data_st a s))"
    and "b < fresh s \<Longrightarrow> objs (snd (prepare_cost_comparison_data_st a s)) b = objs s b"
  using assms
  by (simp_all add: prepare_cost_comparison_data_st_def prepare_cost_comparison_data_def
      new_obj_def set_obj_def Let_def)

lemma run_query_frame:
  assumes "objs s a = Some (Rows df)"
  shows "fst (run_query q a s) = pure_answer q df"
    and "fresh s \<le> fresh (snd (run_query q a s))"
    and "b < fresh s \<Longrightarrow> objs (snd (run_query q a s)) b = objs s b"
proof -
  show "fst (run_query q a s) = pure_answer q df"
    using assms
    by (cases q)
      (simp_all add: run_query_def pure_answer_def calculate_kpis_st_frame
        get_area_analysis_st_frame get_status_distribution_st_frame
        prepare_cost_comparison_data_st_frame)
  show "fresh s \<le> fresh (snd (run_query q a s))"
    using assms
    by (cases q)
      (simp_all add: run_query_def calculate_kpis_st_frame get_area_analysis_st_frame
        get_status_distribution_st_frame prepare_cost_comparison_data_st_frame)
  show "b < fresh s \<Longrightarrow> objs (snd (run_query q a s)) b = objs s b"
    using assms
    by (cases q)
      (simp_all add: run_query_def calculate_kpis_st_frame get_area_analysis_st_frame
        get_status_distribution_st_frame prepare_cost_comparison_data_st_frame)
qed

text \<open>
  Claim C9. A query called on the address of a cleaned table leaves that table in the
  store as it was and returns what the pure function computes from it; hence a second
  query, of any of the four kinds, answers after the first as it would have without it.
\<close>

theorem queries_leave_table_unchanged:
  assumes "a < fresh s" and "objs s a = Some (Rows df)"
  shows "objs (snd (run_query q a s)) a = Some (Rows df)
         \<and> fst (run_query q a s) = pure_answer q df
         \<and> fst (run_query q' a (snd (run_query q a s))) = fst (run_query q' a s)"
proof -
  have kept: "objs (snd (run_query q a s)) a = Some (Rows df)"
    using run_query_frame(3) [OF assms(2) assms(1)] assms(2) by simp
  have "fst (run_query q' a (snd (run_query q a s))) = pure_answer q' df"
    by (rule run_query_frame(1) [OF kept])
  then show ?thesis
    using kept run_query_frame(1) [OF assms(2)] by simp
qed

theorem queries_leave_table_unchanged_witness:
  "objs (snd (run_query AreaAnalysis 0 two_area_store)) 0 = Some (Rows two_area_rows)
   \<and> fst (run_query AreaAnalysis 0 two_area_store) = pure_answer AreaAnalysis two_area_rows
   \<and> fst (run_query Kpis 0 (snd (run_query AreaAnalysis 0 two_area_store)))
       = fst (run_query Kpis 0 two_area_store)"
proof -
  have allocated: "0 < fresh two_area_store"
    by (simp add: two_area_store_def)
  have table: "objs two_area_store 0 = Some (Rows two_area_rows)"
    by (simp add: two_area_store_def)
  show ?thesis
    by (rule queries_leave_table_unchanged [OF allocated table])
qed

end
